theory Spec2Isabelle
  imports Complex_Main "HOL-Library.Multiset" "HOL-Library.Monad_Syntax"
begin

section \<open>Rectangular domains (domains.py)\<close>

text \<open>
  Coordinates are Python floats. They are modelled as exact real numbers: the order
  comparisons of the source are the comparisons of \<open>real\<close>, and \<open>+\<close>, \<open>-\<close>, \<open>*\<close> are
  exact. Rounding, infinities and NaN are outside this model.
\<close>

subsection \<open>Two-component vectors\<close>

text \<open>
  Modelled from the spec: the class \<open>Vector2\<close> of module \<open>primitives\<close>, which
  domains.py imports and which is not among the sources. The spec gives it two scalar
  components, indexed access (index 0 is x, index 1 is y), componentwise subtraction and
  componentwise equality. \<open>item0 v\<close> is \<open>v[0]\<close> and \<open>item1 v\<close> is \<open>v[1]\<close>. Every
  "2-tuple-like" value of the source (a Vector2, a point, a row of the 4 x 2 array
  returned by reflectPoint) has this type.
\<close>

datatype Vector2 = Vector2 (item0: real) (item1: real)

definition vec_sub :: "Vector2 \<Rightarrow> Vector2 \<Rightarrow> Vector2" where
  "vec_sub a b = Vector2 (item0 a - item0 b) (item1 a - item1 b)"

subsection \<open>RectDomain and its pure methods\<close>

text \<open>The attribute \<open>size\<close> of the source is the field \<open>size_v\<close>.\<close>

record RectDomain =
  minCorner :: Vector2
  size_v :: Vector2

text \<open>\<open>__init__\<close>: the constructor stores its two arguments.\<close>

definition RectDomain_init :: "Vector2 \<Rightarrow> Vector2 \<Rightarrow> RectDomain" where
  "RectDomain_init minCorner' size' = \<lparr> minCorner = minCorner', size_v = size' \<rparr>"

text \<open>\<open>__eq__\<close>\<close>

definition eq_RectDomain :: "RectDomain \<Rightarrow> RectDomain \<Rightarrow> bool" where
  "eq_RectDomain self other \<longleftrightarrow>
     minCorner self = minCorner other \<and> size_v self = size_v other"

definition intersects :: "RectDomain \<Rightarrow> RectDomain \<Rightarrow> bool" where
  "intersects self domain \<longleftrightarrow>
     \<not> (item0 (minCorner self) > item0 (minCorner domain) + item0 (size_v domain) \<or>
        item1 (minCorner self) > item1 (minCorner domain) + item1 (size_v domain) \<or>
        item0 (minCorner self) + item0 (size_v self) < item0 (minCorner domain) \<or>
        item1 (minCorner self) + item1 (size_v self) < item1 (minCorner domain))"



text \<open>
  \<open>intersection\<close> returns \<open>None\<close> for Python's \<open>None\<close>. \<open>X.sort()\<close> sorts the four
  numbers in ascending order; both lists have four elements, so the indices 1 and 2 are
  in range.
\<close>

definition intersection :: "RectDomain \<Rightarrow> RectDomain \<Rightarrow> RectDomain option" where
  "intersection self domain =
     (if \<not> intersects self domain then None
      else
        let X = sort [ item0 (minCorner self), item0 (minCorner domain),
                       item0 (minCorner self) + item0 (size_v self),
                       item0 (minCorner domain) + item0 (size_v domain) ];
            Y = sort [ item1 (minCorner self), item1 (minCorner domain),
                       item1 (minCorner self) + item1 (size_v self),
                       item1 (minCorner domain) + item1 (size_v domain) ];
            minCorner' = Vector2 (X ! 1) (Y ! 1);
            maxCorner = Vector2 (X ! 2) (Y ! 2)
        in Some (RectDomain_init minCorner' (vec_sub maxCorner minCorner')))"

text \<open>The rectangle \<open>d\<close> of the source's \<open>testIntersection\<close>: min (0, 0), size (5, 5).\<close>

definition test_d :: RectDomain where
  "test_d = RectDomain_init (Vector2 0 0) (Vector2 5 5)"

subsection \<open>Objects and references: copyDomain\<close>

text \<open>
  \<open>copyDomain\<close> assigns to the attributes of \<open>self\<close>, and what it assigns are new
  objects made by \<open>copy.deepcopy\<close>. To say which objects are shared, the Vector2 objects
  and the RectDomain objects live in a heap and are named by their addresses. A
  RectDomain object holds, in each attribute, the address of a Vector2 object. An address
  is an index into the list of objects of its kind; allocation appends to the list, so a
  new object has an address no older object has.
\<close>

type_synonym ref = nat

record RectDomain_obj =
  minCorner_ref :: ref
  size_ref :: ref

record heap =
  vectors :: "Vector2 list"
  domains :: "RectDomain_obj list"

definition get_vector :: "heap \<Rightarrow> ref \<Rightarrow> Vector2 option" where
  "get_vector h r = (if r < length (vectors h) then Some (vectors h ! r) else None)"

definition get_domain :: "heap \<Rightarrow> ref \<Rightarrow> RectDomain_obj option" where
  "get_domain h r = (if r < length (domains h) then Some (domains h ! r) else None)"

text \<open>
  \<open>copy.deepcopy\<close> of a Vector2 object: a new object with the same two numbers (numbers
  are immutable, so the copy shares nothing that can change). The result is the address
  of the copy and the heap that holds it. An address that names no object gives \<open>None\<close>;
  Python has no such reference.
\<close>

definition deepcopy :: "heap \<Rightarrow> ref \<Rightarrow> (ref \<times> heap) option" where
  "deepcopy h r =
     do { v \<leftarrow> get_vector h r;
          Some (length (vectors h), h\<lparr> vectors := vectors h @ [v] \<rparr>) }"

text \<open>The attribute assignments \<open>self.minCorner = r\<close> and \<open>self.size = r\<close>.\<close>

definition set_minCorner :: "heap \<Rightarrow> ref \<Rightarrow> ref \<Rightarrow> heap option" where
  "set_minCorner h self r =
     do { s \<leftarrow> get_domain h self;
          Some (h\<lparr> domains := (domains h)[self := s\<lparr> minCorner_ref := r \<rparr>] \<rparr>) }"

definition set_size :: "heap \<Rightarrow> ref \<Rightarrow> ref \<Rightarrow> heap option" where
  "set_size h self r =
     do { s \<leftarrow> get_domain h self;
          Some (h\<lparr> domains := (domains h)[self := s\<lparr> size_ref := r \<rparr>] \<rparr>) }"

text \<open>
  \<open>copyDomain\<close>, statement by statement: read \<open>domain.minCorner\<close>, copy it, assign the
  copy to \<open>self.minCorner\<close>; then read \<open>domain.size\<close> (from the heap after the first
  assignment), copy it, assign the copy to \<open>self.size\<close>.
\<close>

definition copyDomain :: "heap \<Rightarrow> ref \<Rightarrow> ref \<Rightarrow> heap option" where
  "copyDomain h self domain =
     do { d \<leftarrow> get_domain h domain;
          (m, h1) \<leftarrow> deepcopy h (minCorner_ref d);
          h2 \<leftarrow> set_minCorner h1 self m;
          d' \<leftarrow> get_domain h2 domain;
          (z, h3) \<leftarrow> deepcopy h2 (size_ref d');
          set_size h3 self z }"

text \<open>
  The rectangle a RectDomain object stands for: its attributes followed to the vectors
  they name. The pure methods above read a RectDomain object only through this value.
\<close>

definition deref :: "heap \<Rightarrow> ref \<Rightarrow> RectDomain option" where
  "deref h a =
     do { d \<leftarrow> get_domain h a;
          m \<leftarrow> get_vector h (minCorner_ref d);
          s \<leftarrow> get_vector h (size_ref d);
          Some (RectDomain_init m s) }"

text \<open>\<open>__eq__\<close> called on two objects of the heap.\<close>

definition eq_obj :: "heap \<Rightarrow> ref \<Rightarrow> ref \<Rightarrow> bool option" where
  "eq_obj h a b =
     do { A \<leftarrow> deref h a;
          B \<leftarrow> deref h b;
          Some (eq_RectDomain A B) }"

text \<open>
  Mutating a stored vector in place (as \<open>B.minCorner[0] = 7\<close> does to the object that
  \<open>B.minCorner\<close> names): the object at address \<open>r\<close> gets the components \<open>v\<close>.
\<close>

definition store_vector :: "heap \<Rightarrow> ref \<Rightarrow> Vector2 \<Rightarrow> heap" where
  "store_vector h r v = h\<lparr> vectors := (vectors h)[r := v] \<rparr>"

text \<open>A heap is well formed when every attribute of every RectDomain object names a vector.\<close>

definition heap_ok :: "heap \<Rightarrow> bool" where
  "heap_ok h \<longleftrightarrow>
     list_all (\<lambda>d. minCorner_ref d < length (vectors h) \<and> size_ref d < length (vectors h))
       (domains h)"

text \<open>
  A heap with two rectangles: object 0 is min (0, 0), size (5, 5) and object 1 is
  min (1, 1), size (3, 3), each attribute a vector object of its own.
\<close>

definition test_heap :: heap where
  "test_heap = \<lparr> vectors = [Vector2 0 0, Vector2 5 5, Vector2 1 1, Vector2 3 3],
                 domains = [\<lparr> minCorner_ref = 0, size_ref = 1 \<rparr>,
                            \<lparr> minCorner_ref = 2, size_ref = 3 \<rparr>] \<rparr>"

section \<open>Properties\<close>

subsection \<open>Sorting four numbers\<close>

text \<open>
  When the first number is at most the third and fourth, and the second also, the two
  middle elements of the sorted list are the larger of the first two and the smaller of
  the last two.
\<close>

lemma sort4_middle:
  fixes a b c d :: real
  assumes "a \<le> c" "b \<le> d" "a \<le> d" "b \<le> c"
  shows "sort [a, b, c, d] ! 1 = max a b" and "sort [a, b, c, d] ! 2 = min c d"
  using assms by (auto simp: max_def min_def)

lemma sort4_swap:
  fixes a b c d :: real
  shows "sort [a, b, c, d] = sort [b, a, d, c]"
  by (rule properties_for_sort) simp_all

subsection \<open>The intersection in closed form\<close>

lemma intersection_Some_eq:
  assumes "0 \<le> item0 (size_v A)" "0 \<le> item1 (size_v A)"
      and "0 \<le> item0 (size_v B)" "0 \<le> item1 (size_v B)"
      and "intersects A B"
  shows "intersection A B = Some \<lparr> minCorner =
            Vector2 (max (item0 (minCorner A)) (item0 (minCorner B)))
                    (max (item1 (minCorner A)) (item1 (minCorner B))),
          size_v = Vector2
            (min (item0 (minCorner A) + item0 (size_v A)) (item0 (minCorner B) + item0 (size_v B))
               - max (item0 (minCorner A)) (item0 (minCorner B)))
            (min (item1 (minCorner A) + item1 (size_v A)) (item1 (minCorner B) + item1 (size_v B))
               - max (item1 (minCorner A)) (item1 (minCorner B))) \<rparr>"
proof -
  from assms(5) have sep:
    "item0 (minCorner A) \<le> item0 (minCorner B) + item0 (size_v B)"
    "item1 (minCorner A) \<le> item1 (minCorner B) + item1 (size_v B)"
    "item0 (minCorner B) \<le> item0 (minCorner A) + item0 (size_v A)"
    "item1 (minCorner B) \<le> item1 (minCorner A) + item1 (size_v A)"
    by (auto simp: intersects_def)
  have X: "sort [item0 (minCorner A), item0 (minCorner B),
                 item0 (minCorner A) + item0 (size_v A),
                 item0 (minCorner B) + item0 (size_v B)] ! 1
             = max (item0 (minCorner A)) (item0 (minCorner B))"
          "sort [item0 (minCorner A), item0 (minCorner B),
                 item0 (minCorner A) + item0 (size_v A),
                 item0 (minCorner B) + item0 (size_v B)] ! 2
             = min (item0 (minCorner A) + item0 (size_v A)) (item0 (minCorner B) + item0 (size_v B))"
    using assms(1,3) sep(1,3) by (intro sort4_middle; linarith)+
  have Y: "sort [item1 (minCorner A), item1 (minCorner B),
                 item1 (minCorner A) + item1 (size_v A),
                 item1 (minCorner B) + item1 (size_v B)] ! 1
             = max (item1 (minCorner A)) (item1 (minCorner B))"
          "sort [item1 (minCorner A), item1 (minCorner B),
                 item1 (minCorner A) + item1 (size_v A),
                 item1 (minCorner B) + item1 (size_v B)] ! 2
             = min (item1 (minCorner A) + item1 (size_v A)) (item1 (minCorner B) + item1 (size_v B))"
    using assms(2,4) sep(2,4) by (intro sort4_middle; linarith)+
  show ?thesis
    unfolding intersection_def Let_def X Y vec_sub_def RectDomain_init_def
    using assms(5) by simp
qed


text \<open>
  C5: \<open>intersects\<close> is symmetric in its two arguments, whatever the signs of the sizes.
\<close>

theorem intersects_symmetric: "intersects A B = intersects B A"
  unfolding intersects_def by auto





text \<open>
  C4: for rectangles with non-negative sizes, \<open>A.intersection(B)\<close> is \<open>None\<close> exactly
  when \<open>A.intersects(B)\<close> is false; and when the two intersect and, on some axis, one
  rectangle's maximum is the other's minimum (they touch at an edge or a corner), the
  result is a rectangle whose width or height is zero.
\<close>

theorem intersection_None_iff:
  assumes "0 \<le> item0 (size_v A)" "0 \<le> item1 (size_v A)"
      and "0 \<le> item0 (size_v B)" "0 \<le> item1 (size_v B)"
  shows "(intersection A B = None \<longleftrightarrow> \<not> intersects A B) \<and>
         (intersects A B \<and>
          (item0 (minCorner A) + item0 (size_v A) = item0 (minCorner B) \<or>
           item0 (minCorner B) + item0 (size_v B) = item0 (minCorner A) \<or>
           item1 (minCorner A) + item1 (size_v A) = item1 (minCorner B) \<or>
           item1 (minCorner B) + item1 (size_v B) = item1 (minCorner A))
          \<longrightarrow> (\<exists>R. intersection A B = Some R \<and>
                    (item0 (size_v R) = 0 \<or> item1 (size_v R) = 0)))"
proof -
  have none: "intersection A B = None \<longleftrightarrow> \<not> intersects A B"
    by (simp add: intersection_def Let_def)
  have touch: "\<exists>R. intersection A B = Some R \<and> (item0 (size_v R) = 0 \<or> item1 (size_v R) = 0)"
    if i: "intersects A B"
    and t: "item0 (minCorner A) + item0 (size_v A) = item0 (minCorner B) \<or>
            item0 (minCorner B) + item0 (size_v B) = item0 (minCorner A) \<or>
            item1 (minCorner A) + item1 (size_v A) = item1 (minCorner B) \<or>
            item1 (minCorner B) + item1 (size_v B) = item1 (minCorner A)"
  proof -
    have "min (item0 (minCorner A) + item0 (size_v A)) (item0 (minCorner B) + item0 (size_v B))
            - max (item0 (minCorner A)) (item0 (minCorner B)) = 0 \<or>
          min (item1 (minCorner A) + item1 (size_v A)) (item1 (minCorner B) + item1 (size_v B))
            - max (item1 (minCorner A)) (item1 (minCorner B)) = 0"
      using t assms by linarith
    then show ?thesis
      unfolding intersection_Some_eq [OF assms i] by simp
  qed
  from none touch show ?thesis by blast
qed

theorem intersection_None_iff_witness:
  "0 \<le> item0 (size_v test_d) \<and> 0 \<le> item1 (size_v test_d) \<and>
   0 \<le> item0 (size_v (RectDomain_init (Vector2 5 1) (Vector2 2 2))) \<and>
   0 \<le> item1 (size_v (RectDomain_init (Vector2 5 1) (Vector2 2 2))) \<and>
   intersects test_d (RectDomain_init (Vector2 5 1) (Vector2 2 2)) \<and>
   item0 (minCorner test_d) + item0 (size_v test_d)
     = item0 (minCorner (RectDomain_init (Vector2 5 1) (Vector2 2 2))) \<and>
   (\<exists>R. intersection test_d (RectDomain_init (Vector2 5 1) (Vector2 2 2)) = Some R \<and>
        (item0 (size_v R) = 0 \<or> item1 (size_v R) = 0)) \<and>
   intersection test_d (RectDomain_init (Vector2 5 1) (Vector2 2 2))
     = Some (RectDomain_init (Vector2 5 1) (Vector2 0 2))"
proof -
  let ?B = "RectDomain_init (Vector2 5 1) (Vector2 2 2)"
  have h: "0 \<le> item0 (size_v test_d)" "0 \<le> item1 (size_v test_d)"
          "0 \<le> item0 (size_v ?B)" "0 \<le> item1 (size_v ?B)"
    by (simp_all add: test_d_def RectDomain_init_def)
  have i: "intersects test_d ?B"
    by (simp add: intersects_def test_d_def RectDomain_init_def)
  have t: "item0 (minCorner test_d) + item0 (size_v test_d) = item0 (minCorner ?B)"
    by (simp add: test_d_def RectDomain_init_def)
  have v: "intersection test_d ?B = Some (RectDomain_init (Vector2 5 1) (Vector2 0 2))"
    by (simp add: intersection_def intersects_def vec_sub_def test_d_def RectDomain_init_def)
  from intersection_None_iff [OF h] i t
  have "\<exists>R. intersection test_d ?B = Some R \<and>
            (item0 (size_v R) = 0 \<or> item1 (size_v R) = 0)"
    by blast
  with h i t v show ?thesis by blast
qed



text \<open>
  C9: the source's test cases. With \<open>d\<close> = min (0, 0), size (5, 5): the intersection
  with min (6, 6), size (1, 1) is \<open>None\<close>; with min (1, 1), size (3, 3) it is
  min (1, 1), size (3, 3); with min (-1, -1), size (2, 2) it is min (0, 0), size (1, 1);
  with min (-1, 1), size (2, 2) it is min (0, 1), size (1, 2).
\<close>

theorem intersection_test_cases:
  "intersection test_d (RectDomain_init (Vector2 6 6) (Vector2 1 1)) = None \<and>
   intersection test_d (RectDomain_init (Vector2 1 1) (Vector2 3 3))
     = Some (RectDomain_init (Vector2 1 1) (Vector2 3 3)) \<and>
   intersection test_d (RectDomain_init (Vector2 (- 1) (- 1)) (Vector2 2 2))
     = Some (RectDomain_init (Vector2 0 0) (Vector2 1 1)) \<and>
   intersection test_d (RectDomain_init (Vector2 (- 1) 1) (Vector2 2 2))
     = Some (RectDomain_init (Vector2 0 1) (Vector2 1 2))"
  by (simp add: intersection_def intersects_def vec_sub_def test_d_def RectDomain_init_def)

text \<open>
  C10: \<open>A.intersection(B)\<close> and \<open>B.intersection(A)\<close> agree, whatever the signs of the
  sizes: both are \<open>None\<close>, or both are rectangles that \<open>__eq__\<close> reports equal.
\<close>

theorem intersection_symmetric:
  "intersection A B = intersection B A \<and>
   (case (intersection A B, intersection B A) of
      (None, None) \<Rightarrow> True
    | (Some R, Some R') \<Rightarrow> eq_RectDomain R R'
    | _ \<Rightarrow> False)"
proof -
  have i: "intersects A B = intersects B A"
    unfolding intersects_def by auto
  have e: "intersection A B = intersection B A"
    unfolding intersection_def i
      sort4_swap [of "item0 (minCorner A)" "item0 (minCorner B)"]
      sort4_swap [of "item1 (minCorner A)" "item1 (minCorner B)"]
    by simp
  show ?thesis
    unfolding e by (simp add: eq_RectDomain_def split: option.split)
qed




subsection \<open>copyDomain on the heap\<close>

text \<open>
  On a well-formed heap \<open>copyDomain\<close> returns: it appends the two copies to the vectors
  and points both attributes of \<open>self\<close> at them.
\<close>

lemma copyDomain_result:
  assumes "heap_ok h" "a < length (domains h)" "b < length (domains h)"
  shows "copyDomain h a b =
           Some (h\<lparr> vectors := vectors h @ [vectors h ! minCorner_ref (domains h ! b),
                                           vectors h ! size_ref (domains h ! b)],
                    domains := (domains h)[a := (domains h ! a)
                      \<lparr> minCorner_ref := length (vectors h),
                        size_ref := Suc (length (vectors h)) \<rparr>] \<rparr>)"
proof -
  from assms(1,3) have r:
    "minCorner_ref (domains h ! b) < length (vectors h)"
    "size_ref (domains h ! b) < length (vectors h)"
    by (simp_all add: heap_ok_def list_all_length)
  show ?thesis
  proof (cases "a = b")
    case True
    with assms r show ?thesis
      by (simp add: copyDomain_def deepcopy_def set_minCorner_def set_size_def
            get_domain_def get_vector_def nth_append)
  next
    case False
    with assms r show ?thesis
      by (simp add: copyDomain_def deepcopy_def set_minCorner_def set_size_def
            get_domain_def get_vector_def nth_append)
  qed
qed

text \<open>
  C8: on a well-formed heap, \<open>A.copyDomain(B)\<close> returns, and afterwards: \<open>A == B\<close> is
  true and \<open>A\<close> has the value \<open>B\<close> had; the value of \<open>B\<close> is what it was, no vector
  object that existed before the call has been written, and (for \<open>B\<close> an object other
  than \<open>A\<close>) \<open>B\<close>'s attributes name the objects they named; the attributes of \<open>A\<close> name
  two new vector objects, so writing to any vector object that existed before the call,
  and in particular (for \<open>B\<close> other than \<open>A\<close>) to the vectors \<open>B\<close> holds, leaves the
  value of \<open>A\<close> unchanged.
\<close>

theorem copyDomain_deep_copy:
  assumes "heap_ok h" "a < length (domains h)" "b < length (domains h)"
  shows "\<exists>h'. copyDomain h a b = Some h' \<and>
           heap_ok h' \<and>
           eq_obj h' a b = Some True \<and>
           deref h b \<noteq> None \<and> deref h' a = deref h b \<and> deref h' b = deref h b \<and>
           (\<forall>r. r < length (vectors h) \<longrightarrow> get_vector h' r = get_vector h r) \<and>
           (a \<noteq> b \<longrightarrow> get_domain h' b = get_domain h b) \<and>
           length (vectors h) \<le> minCorner_ref (domains h' ! a) \<and>
           length (vectors h) \<le> size_ref (domains h' ! a) \<and>
           (\<forall>r v. r < length (vectors h) \<longrightarrow> deref (store_vector h' r v) a = deref h' a) \<and>
           (a \<noteq> b \<longrightarrow>
              (\<forall>v. deref (store_vector h' (minCorner_ref (domains h' ! b)) v) a = deref h' a \<and>
                   deref (store_vector h' (size_ref (domains h' ! b)) v) a = deref h' a))"
proof -
  define n where "n = length (vectors h)"
  define h' where "h' = h\<lparr> vectors := vectors h @ [vectors h ! minCorner_ref (domains h ! b),
                                                  vectors h ! size_ref (domains h ! b)],
                           domains := (domains h)[a := (domains h ! a)
                             \<lparr> minCorner_ref := n, size_ref := Suc n \<rparr>] \<rparr>"
  from assms(1,3) have r:
    "minCorner_ref (domains h ! b) < n" "size_ref (domains h ! b) < n"
    by (simp_all add: heap_ok_def list_all_length n_def)
  have c: "copyDomain h a b = Some h'"
    unfolding h'_def n_def by (rule copyDomain_result [OF assms])
  have ok: "heap_ok h'"
  proof -
    have "minCorner_ref (domains h' ! i) < length (vectors h') \<and>
          size_ref (domains h' ! i) < length (vectors h')"
      if i: "i < length (domains h')" for i
    proof (cases "i = a")
      case True
      with i show ?thesis by (simp add: h'_def n_def)
    next
      case False
      from i have "i < length (domains h)"
        by (simp add: h'_def)
      with assms(1) have "minCorner_ref (domains h ! i) < length (vectors h) \<and>
                          size_ref (domains h ! i) < length (vectors h)"
        by (simp add: heap_ok_def list_all_length)
      with False show ?thesis
        by (simp add: h'_def)
    qed
    then show ?thesis
      by (simp add: heap_ok_def list_all_length)
  qed
  have vb: "deref h b = Some (RectDomain_init (vectors h ! minCorner_ref (domains h ! b))
                                               (vectors h ! size_ref (domains h ! b)))"
    using assms(3) r by (simp add: deref_def get_domain_def get_vector_def n_def)
  have va: "deref h' a = deref h b"
    using assms(2) unfolding vb
    by (simp add: deref_def get_domain_def get_vector_def h'_def n_def nth_append)
  have vb': "deref h' b = deref h b"
  proof (cases "a = b")
    case True
    with va show ?thesis by simp
  next
    case False
    with assms(3) r show ?thesis
      unfolding vb
      by (simp add: deref_def get_domain_def get_vector_def h'_def n_def nth_append)
  qed
  have e: "eq_obj h' a b = Some True"
    by (simp add: eq_obj_def va vb' vb eq_RectDomain_def)
  have old: "get_vector h' r = get_vector h r" if "r < length (vectors h)" for r
    using that by (simp add: get_vector_def h'_def nth_append)
  have dom_b: "get_domain h' b = get_domain h b" if "a \<noteq> b"
    using that by (simp add: get_domain_def h'_def)
  have fresh: "n \<le> minCorner_ref (domains h' ! a)" "n \<le> size_ref (domains h' ! a)"
    using assms(2) by (simp_all add: h'_def)
  have write_old: "deref (store_vector h' r v) a = deref h' a"
    if "r < length (vectors h)" for r v
    using that assms(2)
    by (simp add: deref_def store_vector_def get_domain_def get_vector_def h'_def n_def
          nth_append nth_list_update)
  have write_b:
    "deref (store_vector h' (minCorner_ref (domains h' ! b)) v) a = deref h' a \<and>
     deref (store_vector h' (size_ref (domains h' ! b)) v) a = deref h' a"
    if "a \<noteq> b" for v
  proof -
    from that have "domains h' ! b = domains h ! b"
      by (simp add: h'_def)
    with r write_old show ?thesis
      by (simp add: n_def)
  qed
  from c ok e vb va vb' old dom_b fresh write_old write_b show ?thesis
    unfolding n_def by blast
qed

theorem copyDomain_deep_copy_witness:
  "heap_ok test_heap \<and> 0 < length (domains test_heap) \<and> 1 < length (domains test_heap) \<and>
   (\<exists>h'. copyDomain test_heap 0 1 = Some h' \<and>
         eq_obj h' 0 1 = Some True \<and>
         deref h' 0 = Some (RectDomain_init (Vector2 1 1) (Vector2 3 3)) \<and>
         deref h' 1 = Some (RectDomain_init (Vector2 1 1) (Vector2 3 3)) \<and>
         minCorner_ref (domains h' ! 1) = 2 \<and>
         deref (store_vector h' 2 (Vector2 9 9)) 1
           = Some (RectDomain_init (Vector2 9 9) (Vector2 3 3)) \<and>
         deref (store_vector h' 2 (Vector2 9 9)) 0
           = Some (RectDomain_init (Vector2 1 1) (Vector2 3 3)))"
proof -
  have h: "heap_ok test_heap" "0 < length (domains test_heap)" "1 < length (domains test_heap)"
    by (simp_all add: heap_ok_def test_heap_def)
  have v: "deref test_heap 1 = Some (RectDomain_init (Vector2 1 1) (Vector2 3 3))"
    by (simp add: deref_def get_domain_def get_vector_def test_heap_def)
  from copyDomain_deep_copy [OF h] obtain h' where
    c: "copyDomain test_heap 0 1 = Some h'" and
    e: "eq_obj h' 0 1 = Some True" and
    a: "deref h' 0 = deref test_heap 1" and
    b: "deref h' 1 = deref test_heap 1" and
    d: "(0::nat) \<noteq> 1 \<longrightarrow> get_domain h' 1 = get_domain test_heap 1" and
    w: "(0::nat) \<noteq> 1 \<longrightarrow>
          (\<forall>v. deref (store_vector h' (minCorner_ref (domains h' ! 1)) v) 0 = deref h' 0 \<and>
               deref (store_vector h' (size_ref (domains h' ! 1)) v) 0 = deref h' 0)"
    by blast
  from c have h'_eq:
    "h' = test_heap\<lparr> vectors := vectors test_heap @
                         [vectors test_heap ! minCorner_ref (domains test_heap ! 1),
                          vectors test_heap ! size_ref (domains test_heap ! 1)],
                     domains := (domains test_heap)[0 := (domains test_heap ! 0)
                       \<lparr> minCorner_ref := length (vectors test_heap),
                         size_ref := Suc (length (vectors test_heap)) \<rparr>] \<rparr>"
    unfolding copyDomain_result [OF h] by simp
  have m: "minCorner_ref (domains h' ! 1) = 2"
    unfolding h'_eq by (simp add: test_heap_def)
  have s1: "deref (store_vector h' 2 (Vector2 9 9)) 1
              = Some (RectDomain_init (Vector2 9 9) (Vector2 3 3))"
    unfolding h'_eq
    by (simp add: deref_def store_vector_def get_domain_def get_vector_def test_heap_def)
  from w m have s0: "deref (store_vector h' 2 (Vector2 9 9)) 0 = deref h' 0"
    by (metis zero_neq_one)
  from h c e a b v m s1 s0 show ?thesis
    by simp
qed

end
